theory Spec2Isabelle
  imports Main
begin

section \<open>Values, promises and the transport\<close>

text \<open>
  The module \<^verbatim>\<open>Backend/utils/redisClient.js\<close> keeps two module-level variables,
  \<^verbatim>\<open>redisClient\<close> and \<^verbatim>\<open>redisAvailable\<close>, and exports \<^verbatim>\<open>initRedis\<close> and
  \<^verbatim>\<open>getRedisClient\<close>. The values that cross its boundary are JavaScript values; the
  ones the module can see are null, strings, numbers, booleans and arrays of these.
\<close>

datatype js_value =
    JNull
  | JStr string
  | JNum int
  | JBool bool
  | JArr "js_value list"

text \<open>
  Every operation is an \<^verbatim>\<open>async\<close> function: what the caller gets is a promise that
  either resolves with a value or rejects with an error. The transport's own calls
  return such promises too. An error is represented by its \<^verbatim>\<open>message\<close>, the only
  part of it the module reads.
\<close>

datatype outcome =
    Rejected string
  | Resolved js_value

text \<open>The commands the module sends through the client object.\<close>

datatype command =
    GET string
  | SETEX string int string
  | DEL string
  | MGET "string list"
  | MSET "(string \<times> string) list"
  | PING
  | QUIT

text \<open>
  The transport is the \<^verbatim>\<open>ioredis\<close> library, which is not part of the repository. Its
  behaviour at the moment of a call is a parameter of every operation: a function from
  the command sent to the way the returned promise settles.
\<close>

type_synonym transport = "command \<Rightarrow> outcome"

record redis_options =
  host :: string
  port :: js_value
  maxRetriesPerRequest :: nat
  lazyConnect :: bool
  keepAlive :: nat
  connectTimeout :: nat
  commandTimeout :: nat
  enableOfflineQueue :: bool

text \<open>
  The client object as far as the module uses it: the \<^verbatim>\<open>status\<close> string read by
  \<^verbatim>\<open>isAvailable\<close>, the listeners registered with \<^verbatim>\<open>on\<close> (oldest first) and the number
  of \<^verbatim>\<open>connect()\<close> calls. Each listener of the source writes a log line and assigns a
  constant to \<^verbatim>\<open>redisAvailable\<close>; a listener is represented by the event name and
  that constant.
\<close>

record client =
  status :: string
  listeners :: "(string \<times> bool) list"
  connects :: nat
  options :: redis_options

record env =
  REDIS_HOST :: "string option"
  REDIS_PORT :: "string option"

text \<open>
  The module state, with two ghost fields for what the claims count: the number of
  \<^verbatim>\<open>new Redis(...)\<close> evaluations and the commands sent to the transport, in order.
\<close>

record world =
  redisClient :: "client option"
  redisAvailable :: bool
  ctor_calls :: nat
  io :: "command list"

definition world0 :: world where
  "world0 = \<lparr>redisClient = None, redisAvailable = False, ctor_calls = 0, io = []\<rparr>"

section \<open>initRedis\<close>

text \<open>
  \<^verbatim>\<open>retryStrategy: (times) => { const delay = Math.min(times * 50, 2000); return delay; }\<close>
  The transport keeps reconnecting as long as the strategy returns a number and gives up
  on any other value, so the result is kept as a JavaScript value.
\<close>

definition retryStrategy :: "int \<Rightarrow> js_value" where
  "retryStrategy times' = (let delay = min (times' * 50) 2000 in JNum delay)"

fun is_number :: "js_value \<Rightarrow> bool" where
  "is_number (JNum _) = True"
| "is_number _ = False"

text \<open>\<^verbatim>\<open>process.env.X || dflt\<close>: an unset or empty variable is falsy.\<close>

definition env_or :: "string option \<Rightarrow> js_value \<Rightarrow> js_value" where
  "env_or v dflt = (case v of None \<Rightarrow> dflt | Some s \<Rightarrow> if s = [] then dflt else JStr s)"

definition redisOptions :: "env \<Rightarrow> redis_options" where
  "redisOptions e =
     \<lparr>host = (case env_or (REDIS_HOST e) (JStr ''localhost'') of JStr s \<Rightarrow> s | _ \<Rightarrow> ''localhost''),
      port = env_or (REDIS_PORT e) (JNum 6379),
      maxRetriesPerRequest = 3,
      lazyConnect = True,
      keepAlive = 30000,
      connectTimeout = 10000,
      commandTimeout = 5000,
      enableOfflineQueue = False\<rparr>"

text \<open>
  \<^verbatim>\<open>new Redis(redisOptions)\<close> stands inside a \<^verbatim>\<open>try\<close>: it either throws (with a
  message) or yields a fresh client, which with \<^verbatim>\<open>lazyConnect\<close> has status
  \<^verbatim>\<open>wait\<close>, no listener and no connection attempt. Whether it throws is the
  environment's choice, a parameter.
\<close>

definition new_Redis :: "string option \<Rightarrow> redis_options \<Rightarrow> string + client" where
  "new_Redis throws opts =
     (case throws of
        Some msg \<Rightarrow> Inl msg
      | None \<Rightarrow> Inr \<lparr>status = ''wait'', listeners = [], connects = 0, options = opts\<rparr>)"

definition on :: "string \<Rightarrow> bool \<Rightarrow> client \<Rightarrow> client" where
  "on name v c = c\<lparr>listeners := listeners c @ [(name, v)]\<rparr>"

text \<open>
  \<^verbatim>\<open>redisClient.connect()\<close> starts the attempt, which puts the client into status
  \<^verbatim>\<open>connecting\<close>, and returns a promise; its rejection is handled later by the
  \<^verbatim>\<open>catch\<close> callback (\<open>connect_rejected\<close> below). Like \<^verbatim>\<open>on\<close>, the call itself does
  not throw: of the statements inside the \<^verbatim>\<open>try\<close> of \<^verbatim>\<open>initRedis\<close>, the constructor
  is the one that can.
\<close>

definition connect :: "client \<Rightarrow> client" where
  "connect c = c\<lparr>status := ''connecting'', connects := connects c + 1\<rparr>"

definition initRedis :: "env \<Rightarrow> string option \<Rightarrow> world \<Rightarrow> world" where
  "initRedis e throws w =
     (case redisClient w of
        Some c \<Rightarrow> w
      | None \<Rightarrow>
          (case new_Redis throws (redisOptions e) of
             Inl msg \<Rightarrow> w\<lparr>redisAvailable := False, ctor_calls := ctor_calls w + 1\<rparr>
           | Inr c \<Rightarrow>
               w\<lparr>redisClient :=
                    Some (connect
                           (on ''reconnecting'' False
                             (on ''close'' False
                               (on ''ready'' True
                                 (on ''connect'' True
                                   (on ''error'' False c)))))),
                  ctor_calls := ctor_calls w + 1\<rparr>))"

definition connect_rejected :: "string \<Rightarrow> world \<Rightarrow> world" where
  "connect_rejected msg w = w\<lparr>redisAvailable := False\<rparr>"

text \<open>
  An event of the client runs the listeners registered under its name, in order of
  registration. The transport changes \<^verbatim>\<open>status\<close> on its own; \<open>transport_event\<close> takes
  the status the client has when the event is delivered.
\<close>

definition emit :: "string \<Rightarrow> world \<Rightarrow> world" where
  "emit name w =
     (case redisClient w of
        None \<Rightarrow> w
      | Some c \<Rightarrow>
          fold (\<lambda>(n, v) w'. if n = name then w'\<lparr>redisAvailable := v\<rparr> else w')
               (listeners c) w)"

definition transport_event :: "string \<Rightarrow> string \<Rightarrow> world \<Rightarrow> world" where
  "transport_event name st w =
     emit name (w\<lparr>redisClient := map_option (\<lambda>c. c\<lparr>status := st\<rparr>) (redisClient w)\<rparr>)"

section \<open>getRedisClient\<close>

definition isAvailable :: "world \<Rightarrow> bool" where
  "isAvailable w =
     (redisAvailable w \<and>
      (case redisClient w of None \<Rightarrow> False | Some c \<Rightarrow> status c = ''ready''))"

text \<open>
  Each operation returns the settlement of its promise and the module state it leaves.
  A transport call appends its command to \<open>io\<close>; the \<^verbatim>\<open>catch\<close> block assigns
  \<^verbatim>\<open>redisAvailable = false\<close>.
\<close>

definition sent :: "command \<Rightarrow> world \<Rightarrow> world" where
  "sent cmd w = w\<lparr>io := io w @ [cmd]\<rparr>"

definition get :: "string \<Rightarrow> transport \<Rightarrow> world \<Rightarrow> outcome \<times> world" where
  "get key tr w =
     (if \<not> redisAvailable w \<or> redisClient w = None then (Resolved JNull, w)
      else case tr (GET key) of
             Resolved result \<Rightarrow> (Resolved result, sent (GET key) w)
           | Rejected msg \<Rightarrow> (Resolved JNull, (sent (GET key) w)\<lparr>redisAvailable := False\<rparr>))"

definition setex :: "string \<Rightarrow> int \<Rightarrow> string \<Rightarrow> transport \<Rightarrow> world \<Rightarrow> outcome \<times> world" where
  "setex key seconds val tr w =
     (if \<not> redisAvailable w \<or> redisClient w = None then (Resolved (JBool False), w)
      else case tr (SETEX key seconds val) of
             Resolved _ \<Rightarrow> (Resolved (JBool True), sent (SETEX key seconds val) w)
           | Rejected msg \<Rightarrow>
               (Resolved (JBool False),
                (sent (SETEX key seconds val) w)\<lparr>redisAvailable := False\<rparr>))"

definition del :: "string \<Rightarrow> transport \<Rightarrow> world \<Rightarrow> outcome \<times> world" where
  "del key tr w =
     (if \<not> redisAvailable w \<or> redisClient w = None then (Resolved (JBool False), w)
      else case tr (DEL key) of
             Resolved _ \<Rightarrow> (Resolved (JBool True), sent (DEL key) w)
           | Rejected msg \<Rightarrow>
               (Resolved (JBool False), (sent (DEL key) w)\<lparr>redisAvailable := False\<rparr>))"

definition mget :: "string list \<Rightarrow> transport \<Rightarrow> world \<Rightarrow> outcome \<times> world" where
  "mget keys tr w =
     (if \<not> redisAvailable w \<or> redisClient w = None \<or> length keys = 0
      then (Resolved (JArr []), w)
      else case tr (MGET keys) of
             Resolved result \<Rightarrow> (Resolved result, sent (MGET keys) w)
           | Rejected msg \<Rightarrow>
               (Resolved (JArr []), (sent (MGET keys) w)\<lparr>redisAvailable := False\<rparr>))"

definition mset :: "(string \<times> string) list \<Rightarrow> transport \<Rightarrow> world \<Rightarrow> outcome \<times> world" where
  "mset keyValuePairs tr w =
     (if \<not> redisAvailable w \<or> redisClient w = None \<or> length keyValuePairs = 0
      then (Resolved (JBool False), w)
      else case tr (MSET keyValuePairs) of
             Resolved _ \<Rightarrow> (Resolved (JBool True), sent (MSET keyValuePairs) w)
           | Rejected msg \<Rightarrow>
               (Resolved (JBool False),
                (sent (MSET keyValuePairs) w)\<lparr>redisAvailable := False\<rparr>))"

definition ping :: "transport \<Rightarrow> world \<Rightarrow> outcome \<times> world" where
  "ping tr w =
     (if \<not> redisAvailable w \<or> redisClient w = None then (Resolved (JBool False), w)
      else case tr PING of
             Resolved result \<Rightarrow> (Resolved (JBool (result = JStr ''PONG'')), sent PING w)
           | Rejected msg \<Rightarrow>
               (Resolved (JBool False), (sent PING w)\<lparr>redisAvailable := False\<rparr>))"

section \<open>Graceful shutdown\<close>

text \<open>
  The handlers of \<^verbatim>\<open>SIGINT\<close> and \<^verbatim>\<open>SIGTERM\<close> have the same body: when a client
  exists they await \<^verbatim>\<open>redisClient.quit()\<close> inside a \<^verbatim>\<open>try\<close> and write a log line,
  whether the promise resolves or rejects. Neither branch assigns \<^verbatim>\<open>redisAvailable\<close>.
\<close>

definition shutdown :: "transport \<Rightarrow> world \<Rightarrow> world" where
  "shutdown tr w =
     (case redisClient w of
        None \<Rightarrow> w
      | Some c \<Rightarrow>
          (case tr QUIT of
             Resolved _ \<Rightarrow> sent QUIT w
           | Rejected err \<Rightarrow> sent QUIT w))"

section \<open>The server's reply to MGET\<close>

text \<open>
  Modelled from the spec: the transport and the cache server behind it are not in the
  repository. For batch-get the spec describes the genuine result as a sequence of
  values positionally aligned with the keys, a miss being null within the batch. The
  server's content is a map from keys to values.
\<close>

definition lookup :: "(string \<rightharpoonup> string) \<Rightarrow> string \<Rightarrow> js_value" where
  "lookup store key = (case store key of None \<Rightarrow> JNull | Some v \<Rightarrow> JStr v)"

definition mget_reply :: "(string \<rightharpoonup> string) \<Rightarrow> string list \<Rightarrow> js_value" where
  "mget_reply store ks = JArr (map (lookup store) ks)"

section \<open>Runs of the module\<close>

text \<open>
  Modelled from the spec: the Connection State, which the source does not store. The
  spec names its five values.
\<close>

datatype conn_state = Uninitialized | Connecting | Ready | Degraded | Closed

text \<open>
  Modelled from the spec: the Connection State after an event of the transport, as the
  spec's table gives it: connected and ready lead to Ready, close to Degraded,
  reconnecting to Connecting, error leaves it unchanged. An event the table does not
  list leaves it unchanged too.
\<close>

definition conn_after_event :: "string \<Rightarrow> conn_state \<Rightarrow> conn_state" where
  "conn_after_event name cs =
     (if name = ''connect'' \<or> name = ''ready'' then Ready
      else if name = ''close'' then Degraded
      else if name = ''reconnecting'' then Connecting
      else cs)"

text \<open>
  Modelled from the spec: the Connection State after a call of \<^verbatim>\<open>initRedis\<close>. A call
  that finds a client is a no-op; otherwise the start of the connection attempt leads
  to Connecting and a failed initialization to Degraded.
\<close>

definition conn_after_init :: "world \<Rightarrow> string option \<Rightarrow> conn_state \<Rightarrow> conn_state" where
  "conn_after_init w throws cs =
     (case redisClient w of
        Some c \<Rightarrow> cs
      | None \<Rightarrow> (case throws of None \<Rightarrow> Connecting | Some msg \<Rightarrow> Degraded))"

text \<open>
  Modelled from the spec: the Connection State after a shutdown handler has run. The
  spec's table has the row "explicit shutdown completes", leading to Closed; a shutdown
  that finds no connection does nothing, and one whose quit fails is only logged, so
  both leave the state as it was.
\<close>

definition conn_after_shutdown :: "world \<Rightarrow> transport \<Rightarrow> conn_state \<Rightarrow> conn_state" where
  "conn_after_shutdown w tr cs =
     (case redisClient w of
        None \<Rightarrow> cs
      | Some c \<Rightarrow> (case tr QUIT of Resolved _ \<Rightarrow> Closed | Rejected err \<Rightarrow> cs))"

text \<open>
  What can happen to the module between two observations: a call of \<^verbatim>\<open>initRedis\<close>, an
  event delivered by the client, the rejection of the promise of \<^verbatim>\<open>connect()\<close>, or a
  call of one of the six operations with the transport behaving in some way, or one of
  the two signals. Events and the rejection need a client that delivers them. The
  module state changes as the source says; the Connection State follows the spec, which
  records a rejected initial connection as Degraded and leaves the state alone during
  an operation.
\<close>

datatype action =
    InitRedis env "string option"
  | TransportEvent string string
  | ConnectRejected string
  | Get string transport
  | Setex string int string transport
  | Del string transport
  | Mget "string list" transport
  | Mset "(string \<times> string) list" transport
  | Ping transport
  | Sigint transport
  | Sigterm transport

fun step :: "action \<Rightarrow> world \<times> conn_state \<Rightarrow> world \<times> conn_state" where
  "step (InitRedis e throws) (w, cs) = (initRedis e throws w, conn_after_init w throws cs)"
| "step (TransportEvent name st) (w, cs) =
     (case redisClient w of
        None \<Rightarrow> (w, cs)
      | Some c \<Rightarrow> (transport_event name st w, conn_after_event name cs))"
| "step (ConnectRejected msg) (w, cs) =
     (case redisClient w of
        None \<Rightarrow> (w, cs)
      | Some c \<Rightarrow> (connect_rejected msg w, Degraded))"
| "step (Get key tr) (w, cs) = (snd (get key tr w), cs)"
| "step (Setex key seconds val tr) (w, cs) = (snd (setex key seconds val tr w), cs)"
| "step (Del key tr) (w, cs) = (snd (del key tr w), cs)"
| "step (Mget ks tr) (w, cs) = (snd (mget ks tr w), cs)"
| "step (Mset kvs tr) (w, cs) = (snd (mset kvs tr w), cs)"
| "step (Ping tr) (w, cs) = (snd (ping tr w), cs)"
| "step (Sigint tr) (w, cs) = (shutdown tr w, conn_after_shutdown w tr cs)"
| "step (Sigterm tr) (w, cs) = (shutdown tr w, conn_after_shutdown w tr cs)"

definition run :: "action list \<Rightarrow> world \<times> conn_state" where
  "run acts = fold step acts (world0, Uninitialized)"

text \<open>Example inputs: an environment without settings and transports with a fixed answer.\<close>

definition env0 :: env where
  "env0 = \<lparr>REDIS_HOST = None, REDIS_PORT = None\<rparr>"

definition replying :: "js_value \<Rightarrow> transport" where
  "replying v = (\<lambda>cmd. Resolved v)"

definition failing :: "string \<Rightarrow> transport" where
  "failing msg = (\<lambda>cmd. Rejected msg)"

definition serving :: "(string \<rightharpoonup> string) \<Rightarrow> transport" where
  "serving store = (\<lambda>cmd. case cmd of MGET ks \<Rightarrow> Resolved (mget_reply store ks)
                                     | _ \<Rightarrow> Rejected ''unsupported'')"

text \<open>The module after a successful \<^verbatim>\<open>initRedis\<close> and the client's \<^verbatim>\<open>connect\<close> event.\<close>

definition connected :: world where
  "connected = fst (run [InitRedis env0 None, TransportEvent ''connect'' ''connect''])"

text \<open>The same module once the client has become ready and then lost its connection.\<close>

definition disconnected :: world where
  "disconnected =
     fst (run [InitRedis env0 None, TransportEvent ''connect'' ''connect'',
               TransportEvent ''ready'' ''ready'', TransportEvent ''close'' ''close''])"


text \<open>The five listeners \<^verbatim>\<open>initRedis\<close> registers, in the order of the source.\<close>

definition registered :: "(string \<times> bool) list" where
  "registered = [(''error'', False), (''connect'', True), (''ready'', True),
                 (''close'', False), (''reconnecting'', False)]"

section \<open>Properties of the operations\<close>

lemmas op_defs = get_def setex_def del_def mget_def mset_def ping_def

lemmas run_defs = run_def initRedis_def new_Redis_def on_def connect_def
  transport_event_def emit_def world0_def conn_after_init_def conn_after_event_def
  connect_rejected_def

lemma connected_state:
  "connected =
     \<lparr>redisClient = Some \<lparr>status = ''connect'',
        listeners = [(''error'', False), (''connect'', True), (''ready'', True),
                     (''close'', False), (''reconnecting'', False)],
        connects = 1, options = redisOptions env0\<rparr>,
      redisAvailable = True, ctor_calls = 1, io = []\<rparr>"
  by (simp add: connected_def run_defs)

lemma connected_guard: "redisAvailable connected" "redisClient connected \<noteq> None"
  by (simp_all add: connected_state)

lemma disconnected_state:
  "disconnected =
     \<lparr>redisClient = Some \<lparr>status = ''close'',
        listeners = [(''error'', False), (''connect'', True), (''ready'', True),
                     (''close'', False), (''reconnecting'', False)],
        connects = 1, options = redisOptions env0\<rparr>,
      redisAvailable = False, ctor_calls = 1, io = []\<rparr>"
  by (simp add: disconnected_def run_defs)

text \<open>
  C8: for every attempt number the backoff function returns the delay
  \<open>min (t * 50) 2000\<close>; the result is always a number, the only kind of value on which
  the transport goes on retrying, so no attempt number ends the retries.
\<close>

theorem retryStrategy_delay:
  "retryStrategy t = JNum (min (t * 50) 2000) \<and> is_number (retryStrategy t)"
  by (simp add: retryStrategy_def Let_def)

text \<open>
  C7: \<^verbatim>\<open>mset\<close> on an empty sequence of pairs resolves with false and leaves the
  module state as it was, the list of commands sent included, whatever the state and
  the transport are.
\<close>

theorem mset_empty_rejected:
  "mset [] tr w = (Resolved (JBool False), w)"
  by (simp add: mset_def)

theorem mset_empty_rejected_witness:
  "mset [] (replying (JStr ''OK'')) connected = (Resolved (JBool False), connected)
   \<and> redisAvailable connected \<and> redisClient connected \<noteq> None"
  using mset_empty_rejected [of "replying (JStr ''OK'')" connected] connected_guard
  by simp

text \<open>
  C2: when \<^verbatim>\<open>redisAvailable\<close> is false or there is no client, each of the six
  operations resolves with its safe default (null, false, false, the empty array,
  false, false) and returns the module state unchanged: no command is sent.
\<close>

theorem unavailable_safe_default:
  assumes "\<not> redisAvailable w \<or> redisClient w = None"
  shows "get key tr w = (Resolved JNull, w)
       \<and> setex key seconds val tr w = (Resolved (JBool False), w)
       \<and> del key tr w = (Resolved (JBool False), w)
       \<and> mget ks tr w = (Resolved (JArr []), w)
       \<and> mset kvs tr w = (Resolved (JBool False), w)
       \<and> ping tr w = (Resolved (JBool False), w)"
  using assms by (auto simp add: op_defs)

theorem unavailable_safe_default_witness:
  "\<not> redisAvailable disconnected
   \<and> get ''session:42'' (replying (JStr ''payload'')) disconnected
       = (Resolved JNull, disconnected)
   \<and> setex ''session:42'' 3600 ''payload'' (replying (JStr ''OK'')) disconnected
       = (Resolved (JBool False), disconnected)
   \<and> del ''session:42'' (replying (JNum 1)) disconnected
       = (Resolved (JBool False), disconnected)
   \<and> mget [''a'', ''b''] (replying (JArr [JStr ''1'', JStr ''2''])) disconnected
       = (Resolved (JArr []), disconnected)
   \<and> mset [(''a'', ''1'')] (replying (JStr ''OK'')) disconnected
       = (Resolved (JBool False), disconnected)
   \<and> ping (replying (JStr ''PONG'')) disconnected
       = (Resolved (JBool False), disconnected)"
proof -
  have off: "\<not> redisAvailable disconnected"
    by (simp add: disconnected_state)
  then have pre: "\<not> redisAvailable disconnected \<or> redisClient disconnected = None"
    by simp
  show ?thesis
    using off
      unavailable_safe_default [OF pre, of "''session:42''" "replying (JStr ''payload'')"]
      unavailable_safe_default [OF pre, of _ "replying (JStr ''OK'')" 3600 "''payload''" _ "[(''a'', ''1'')]"]
      unavailable_safe_default [OF pre, of "''session:42''" "replying (JNum 1)"]
      unavailable_safe_default [OF pre, of _ "replying (JArr [JStr ''1'', JStr ''2''])" _ _ "[''a'', ''b'']"]
      unavailable_safe_default [OF pre, of _ "replying (JStr ''PONG'')"]
    by blast
qed

text \<open>
  C1: when the guard lets an operation through and the promise of its transport call
  rejects, the operation resolves with its safe default and leaves
  \<^verbatim>\<open>redisAvailable\<close> false (the command was sent). In every state and for every
  behaviour of the transport, the promise of each of the six operations resolves: none
  rejects.
\<close>

theorem transport_failure_swallowed:
  "(redisAvailable w \<and> redisClient w \<noteq> None \<longrightarrow>
      (tr (GET key) = Rejected msg \<longrightarrow>
         get key tr w = (Resolved JNull, (sent (GET key) w)\<lparr>redisAvailable := False\<rparr>))
    \<and> (tr (SETEX key seconds val) = Rejected msg \<longrightarrow>
         setex key seconds val tr w =
           (Resolved (JBool False),
            (sent (SETEX key seconds val) w)\<lparr>redisAvailable := False\<rparr>))
    \<and> (tr (DEL key) = Rejected msg \<longrightarrow>
         del key tr w =
           (Resolved (JBool False), (sent (DEL key) w)\<lparr>redisAvailable := False\<rparr>))
    \<and> (ks \<noteq> [] \<and> tr (MGET ks) = Rejected msg \<longrightarrow>
         mget ks tr w =
           (Resolved (JArr []), (sent (MGET ks) w)\<lparr>redisAvailable := False\<rparr>))
    \<and> (kvs \<noteq> [] \<and> tr (MSET kvs) = Rejected msg \<longrightarrow>
         mset kvs tr w =
           (Resolved (JBool False), (sent (MSET kvs) w)\<lparr>redisAvailable := False\<rparr>))
    \<and> (tr PING = Rejected msg \<longrightarrow>
         ping tr w =
           (Resolved (JBool False), (sent PING w)\<lparr>redisAvailable := False\<rparr>)))
   \<and> (\<exists>v. fst (get key tr w) = Resolved v)
   \<and> (\<exists>v. fst (setex key seconds val tr w) = Resolved v)
   \<and> (\<exists>v. fst (del key tr w) = Resolved v)
   \<and> (\<exists>v. fst (mget ks tr w) = Resolved v)
   \<and> (\<exists>v. fst (mset kvs tr w) = Resolved v)
   \<and> (\<exists>v. fst (ping tr w) = Resolved v)"
  by (auto simp add: op_defs split: outcome.splits)

theorem transport_failure_swallowed_witness:
  "redisAvailable connected \<and> redisClient connected \<noteq> None
   \<and> get ''k'' (failing ''Command timed out'') connected
       = (Resolved JNull, (sent (GET ''k'') connected)\<lparr>redisAvailable := False\<rparr>)
   \<and> setex ''k'' 60 ''v'' (failing ''Command timed out'') connected
       = (Resolved (JBool False),
          (sent (SETEX ''k'' 60 ''v'') connected)\<lparr>redisAvailable := False\<rparr>)
   \<and> del ''k'' (failing ''Command timed out'') connected
       = (Resolved (JBool False), (sent (DEL ''k'') connected)\<lparr>redisAvailable := False\<rparr>)
   \<and> mget [''a'', ''b''] (failing ''Command timed out'') connected
       = (Resolved (JArr []),
          (sent (MGET [''a'', ''b'']) connected)\<lparr>redisAvailable := False\<rparr>)
   \<and> mset [(''a'', ''1'')] (failing ''Command timed out'') connected
       = (Resolved (JBool False),
          (sent (MSET [(''a'', ''1'')]) connected)\<lparr>redisAvailable := False\<rparr>)
   \<and> ping (failing ''Command timed out'') connected
       = (Resolved (JBool False), (sent PING connected)\<lparr>redisAvailable := False\<rparr>)"
  using connected_guard
    transport_failure_swallowed [of connected "failing ''Command timed out''" "''k''"
      "''Command timed out''" 60 "''v''" "[''a'', ''b'']" "[(''a'', ''1'')]"]
  by (simp add: failing_def)

text \<open>
  C5: when the guard lets \<^verbatim>\<open>ping\<close> through, it resolves with true exactly when the
  promise of the transport's ping resolves with the string \<^verbatim>\<open>PONG\<close>; with any other
  reply, and when that promise rejects, it resolves with false.
\<close>

theorem ping_true_iff_pong:
  assumes "redisAvailable w" and "redisClient w \<noteq> None"
  shows "(fst (ping tr w) = Resolved (JBool True)) = (tr PING = Resolved (JStr ''PONG''))
       \<and> (fst (ping tr w) = Resolved (JBool False)) = (tr PING \<noteq> Resolved (JStr ''PONG''))"
proof (cases "tr PING")
  case (Rejected msg)
  with assms show ?thesis by (auto simp add: ping_def)
next
  case (Resolved result)
  with assms show ?thesis by (auto simp add: ping_def)
qed

theorem ping_true_iff_pong_witness:
  "redisAvailable connected \<and> redisClient connected \<noteq> None
   \<and> fst (ping (replying (JStr ''PONG'')) connected) = Resolved (JBool True)
   \<and> fst (ping (replying (JStr ''pong'')) connected) = Resolved (JBool False)
   \<and> fst (ping (replying (JStr ''PONG '')) connected) = Resolved (JBool False)
   \<and> fst (ping (replying JNull) connected) = Resolved (JBool False)
   \<and> fst (ping (failing ''Connection is closed.'') connected) = Resolved (JBool False)"
  using connected_guard
    ping_true_iff_pong [OF connected_guard, of "replying (JStr ''PONG'')"]
    ping_true_iff_pong [OF connected_guard, of "replying (JStr ''pong'')"]
    ping_true_iff_pong [OF connected_guard, of "replying (JStr ''PONG '')"]
    ping_true_iff_pong [OF connected_guard, of "replying JNull"]
    ping_true_iff_pong [OF connected_guard, of "failing ''Connection is closed.''"]
  by (simp add: replying_def failing_def)

text \<open>
  C9: when the guard lets the call through and the promise of the transport call
  resolves, \<^verbatim>\<open>del\<close>, \<^verbatim>\<open>setex\<close> and \<^verbatim>\<open>mset\<close> (on a non-empty batch) resolve with
  true whatever the reply is: a deletion count of zero gives true as well.
\<close>

theorem write_replies_discarded:
  assumes "redisAvailable w" and "redisClient w \<noteq> None"
  shows "(tr (DEL key) = Resolved r \<longrightarrow>
            del key tr w = (Resolved (JBool True), sent (DEL key) w))
       \<and> (tr (SETEX key seconds val) = Resolved r \<longrightarrow>
            setex key seconds val tr w = (Resolved (JBool True), sent (SETEX key seconds val) w))
       \<and> (kvs \<noteq> [] \<and> tr (MSET kvs) = Resolved r \<longrightarrow>
            mset kvs tr w = (Resolved (JBool True), sent (MSET kvs) w))"
  using assms by (auto simp add: del_def setex_def mset_def)

theorem write_replies_discarded_witness:
  "redisAvailable connected \<and> redisClient connected \<noteq> None
   \<and> del ''missing'' (replying (JNum 0)) connected
       = (Resolved (JBool True), sent (DEL ''missing'') connected)
   \<and> setex ''k'' 60 ''v'' (replying (JNum 0)) connected
       = (Resolved (JBool True), sent (SETEX ''k'' 60 ''v'') connected)
   \<and> mset [(''a'', ''1'')] (replying (JNum 0)) connected
       = (Resolved (JBool True), sent (MSET [(''a'', ''1'')]) connected)"
  using connected_guard
    write_replies_discarded [OF connected_guard, of "replying (JNum 0)" "''missing''" "JNum 0"]
    write_replies_discarded [OF connected_guard, of "replying (JNum 0)" "''k''" "JNum 0" 60 "''v''" "[(''a'', ''1'')]"]
  by (simp add: replying_def)

section \<open>Batch get\<close>

text \<open>
  C3 as stated fails: once the connection is lost, \<^verbatim>\<open>mget\<close> of one key resolves with
  the empty array, although the server holds a value for the key and would answer with
  an array of length one.
\<close>

theorem mget_unavailable_counterexample:
  "fst (mget [''a''] (serving [''a'' \<mapsto> ''1'']) disconnected) = Resolved (JArr [])
   \<and> length ([] :: js_value list) \<noteq> length [''a'']
   \<and> serving [''a'' \<mapsto> ''1''] (MGET [''a'']) = Resolved (JArr [JStr ''1''])"
  by (simp add: mget_def disconnected_state serving_def mget_reply_def lookup_def)

text \<open>
  C3, amended: when \<^verbatim>\<open>redisAvailable\<close> is true, a client exists and the promise of the
  transport's MGET resolves with the server's reply, \<^verbatim>\<open>mget\<close> resolves with an array
  that has one element for each key, the element at each position being the value stored
  under the key at that position, or null when there is none. When the flag is false,
  there is no client, or that promise rejects, it resolves with the empty array.
\<close>

theorem mget_aligned_when_served:
  "(redisAvailable w \<and> redisClient w \<noteq> None \<and> tr (MGET ks) = Resolved (mget_reply store ks) \<longrightarrow>
      (\<exists>rs. fst (mget ks tr w) = Resolved (JArr rs) \<and> length rs = length ks
            \<and> (\<forall>i<length ks. rs ! i = lookup store (ks ! i))))
   \<and> (\<not> redisAvailable w \<or> redisClient w = None \<or> tr (MGET ks) = Rejected msg \<longrightarrow>
        fst (mget ks tr w) = Resolved (JArr []))"
  by (auto simp add: mget_def mget_reply_def)

theorem mget_aligned_when_served_witness:
  "redisAvailable connected \<and> redisClient connected \<noteq> None
   \<and> serving [''a'' \<mapsto> ''1''] (MGET [''a'', ''b'', ''a''])
       = Resolved (mget_reply [''a'' \<mapsto> ''1''] [''a'', ''b'', ''a''])
   \<and> (\<exists>rs. fst (mget [''a'', ''b'', ''a''] (serving [''a'' \<mapsto> ''1'']) connected) = Resolved (JArr rs)
        \<and> length rs = 3 \<and> rs ! 0 = JStr ''1'' \<and> rs ! 1 = JNull \<and> rs ! 2 = JStr ''1'')
   \<and> fst (mget [''a'', ''b'', ''a''] (failing ''Command timed out'') connected) = Resolved (JArr [])"
proof -
  let ?st = "[''a'' \<mapsto> ''1'']"
  let ?ks = "[''a'', ''b'', ''a'']"
  have served: "serving ?st (MGET ?ks) = Resolved (mget_reply ?st ?ks)"
    by (simp add: serving_def)
  have "\<exists>rs. fst (mget ?ks (serving ?st) connected) = Resolved (JArr rs) \<and> length rs = length ?ks
            \<and> (\<forall>i<length ?ks. rs ! i = lookup ?st (?ks ! i))"
    using mget_aligned_when_served [of connected "serving ?st" ?ks ?st] connected_guard served
    by blast
  then obtain rs where rs: "fst (mget ?ks (serving ?st) connected) = Resolved (JArr rs)"
      "length rs = length ?ks" "\<forall>i<length ?ks. rs ! i = lookup ?st (?ks ! i)"
    by blast
  from rs(3) have "rs ! 0 = JStr ''1''" "rs ! 1 = JNull" "rs ! 2 = JStr ''1''"
    by (simp_all add: lookup_def)
  with rs(1,2) have ex: "\<exists>rs. fst (mget ?ks (serving ?st) connected) = Resolved (JArr rs)
        \<and> length rs = 3 \<and> rs ! 0 = JStr ''1'' \<and> rs ! 1 = JNull \<and> rs ! 2 = JStr ''1''"
    by simp
  have "fst (mget ?ks (failing ''Command timed out'') connected) = Resolved (JArr [])"
    using mget_aligned_when_served [of connected "failing ''Command timed out''" ?ks _ "''Command timed out''"]
    by (simp add: failing_def)
  with ex served connected_guard show ?thesis by blast
qed

section \<open>Initialization\<close>

lemma initRedis_noop: "redisClient w \<noteq> None \<Longrightarrow> initRedis e throws w = w"
  by (auto simp add: initRedis_def)

lemma initRedis_creates:
  "redisClient w = None \<Longrightarrow>
     initRedis e None w =
       w\<lparr>redisClient := Some \<lparr>status = ''connecting'', listeners = registered, connects = 1,
                               options = redisOptions e\<rparr>,
         ctor_calls := ctor_calls w + 1\<rparr>"
  by (simp add: initRedis_def new_Redis_def on_def connect_def registered_def)

lemma initRedis_throws:
  "redisClient w = None \<Longrightarrow>
     initRedis e (Some msg) w = w\<lparr>redisAvailable := False, ctor_calls := ctor_calls w + 1\<rparr>"
  by (simp add: initRedis_def new_Redis_def)

lemma fold_initRedis_noop:
  "redisClient w \<noteq> None \<Longrightarrow> fold (initRedis e) ts w = w"
  by (induction ts) (simp_all add: initRedis_noop)

text \<open>
  C6 as stated fails: when \<^verbatim>\<open>new Redis\<close> throws, the \<^verbatim>\<open>catch\<close> block leaves
  \<^verbatim>\<open>redisClient\<close> undefined, so two calls evaluate the constructor twice and no
  connection object exists afterwards.
\<close>

theorem initRedis_throwing_counterexample:
  "redisClient (initRedis env0 (Some ''boom'') (initRedis env0 (Some ''boom'') world0)) = None
   \<and> ctor_calls (initRedis env0 (Some ''boom'') (initRedis env0 (Some ''boom'') world0)) = 2"
  by (simp add: initRedis_def new_Redis_def world0_def)

text \<open>
  C6, amended: a call of \<^verbatim>\<open>initRedis\<close> in a state that has a client changes nothing.
  From a state without a client, any number of calls of which the first constructs the
  client without throwing leave the state of that first call: the constructor was
  evaluated once, \<^verbatim>\<open>connect()\<close> was called once and each of the five listeners is
  registered once. When the constructor throws, no client is stored, \<^verbatim>\<open>redisAvailable\<close>
  is false and the evaluation is counted.
\<close>

theorem initRedis_idempotent:
  "(redisClient w \<noteq> None \<longrightarrow> initRedis e throws w = w)
   \<and> (redisClient w = None \<longrightarrow>
        fold (initRedis e) (None # ts) w = initRedis e None w
        \<and> ctor_calls (fold (initRedis e) (None # ts) w) = ctor_calls w + 1
        \<and> (\<exists>c. redisClient (fold (initRedis e) (None # ts) w) = Some c
               \<and> connects c = 1
               \<and> listeners c = [(''error'', False), (''connect'', True), (''ready'', True),
                                 (''close'', False), (''reconnecting'', False)])
        \<and> redisClient (initRedis e (Some msg) w) = None
        \<and> \<not> redisAvailable (initRedis e (Some msg) w)
        \<and> ctor_calls (initRedis e (Some msg) w) = ctor_calls w + 1)"
proof (intro conjI impI)
  assume "redisClient w \<noteq> None"
  then show "initRedis e throws w = w" by (rule initRedis_noop)
next
  assume none: "redisClient w = None"
  have created: "redisClient (initRedis e None w) \<noteq> None"
    using none by (simp add: initRedis_creates)
  show all: "fold (initRedis e) (None # ts) w = initRedis e None w"
    using created by (simp add: fold_initRedis_noop)
  show "ctor_calls (fold (initRedis e) (None # ts) w) = ctor_calls w + 1"
    unfolding all using none by (simp add: initRedis_creates)
  show "\<exists>c. redisClient (fold (initRedis e) (None # ts) w) = Some c
               \<and> connects c = 1
               \<and> listeners c = [(''error'', False), (''connect'', True), (''ready'', True),
                                 (''close'', False), (''reconnecting'', False)]"
    unfolding all using none by (simp add: initRedis_creates registered_def)
  show "redisClient (initRedis e (Some msg) w) = None"
    using none by (simp add: initRedis_throws)
  show "\<not> redisAvailable (initRedis e (Some msg) w)"
    using none by (simp add: initRedis_throws)
  show "ctor_calls (initRedis e (Some msg) w) = ctor_calls w + 1"
    using none by (simp add: initRedis_throws)
qed

theorem initRedis_idempotent_witness:
  "redisClient world0 = None
   \<and> fold (initRedis env0) [None, Some ''boom'', None] world0 = initRedis env0 None world0
   \<and> ctor_calls (fold (initRedis env0) [None, Some ''boom'', None] world0) = 1
   \<and> (\<exists>c. redisClient (fold (initRedis env0) [None, Some ''boom'', None] world0) = Some c
          \<and> connects c = 1
          \<and> listeners c = [(''error'', False), (''connect'', True), (''ready'', True),
                            (''close'', False), (''reconnecting'', False)])
   \<and> redisClient connected \<noteq> None
   \<and> initRedis env0 None connected = connected"
proof -
  have none: "redisClient world0 = None" and zero: "ctor_calls world0 = 0"
    by (simp_all add: world0_def)
  note first = initRedis_idempotent [of world0 env0 None "[Some ''boom'', None]",
      THEN conjunct2, rule_format, OF none]
  note later = initRedis_idempotent [of connected env0 None "[]",
      THEN conjunct1, rule_format, OF connected_guard(2)]
  from first have "ctor_calls (fold (initRedis env0) [None, Some ''boom'', None] world0)
      = ctor_calls world0 + 1"
    by blast
  then have "ctor_calls (fold (initRedis env0) [None, Some ''boom'', None] world0) = 1"
    by (simp only: zero add_0)
  with none first later connected_guard(2) show ?thesis
    by blast
qed

section \<open>The availability flag along a run\<close>






















text \<open>
  C10: \<^verbatim>\<open>isAvailable()\<close> implies the guard of the operations, and not the other way
  round: in the state reached by a successful \<^verbatim>\<open>initRedis\<close> and the client's
  \<^verbatim>\<open>connect\<close> event, with the client's status \<^verbatim>\<open>connect\<close>, \<^verbatim>\<open>isAvailable()\<close> is
  false while each of the six operations sends its command to the transport (the batch
  operations on a non-empty input).
\<close>

theorem isAvailable_stronger_than_guard:
  "(isAvailable w \<longrightarrow> redisAvailable w \<and> redisClient w \<noteq> None)
   \<and> connected = fst (run [InitRedis env0 None, TransportEvent ''connect'' ''connect''])
   \<and> \<not> isAvailable connected
   \<and> redisAvailable connected \<and> redisClient connected \<noteq> None
   \<and> io connected = []
   \<and> io (snd (get key tr connected)) = [GET key]
   \<and> io (snd (setex key seconds val tr connected)) = [SETEX key seconds val]
   \<and> io (snd (del key tr connected)) = [DEL key]
   \<and> (ks \<noteq> [] \<longrightarrow> io (snd (mget ks tr connected)) = [MGET ks])
   \<and> (kvs \<noteq> [] \<longrightarrow> io (snd (mset kvs tr connected)) = [MSET kvs])
   \<and> io (snd (ping tr connected)) = [PING]"
proof -
  have stronger: "isAvailable w \<longrightarrow> redisAvailable w \<and> redisClient w \<noteq> None"
    by (auto simp add: isAvailable_def split: option.splits)
  have not_ready: "\<not> isAvailable connected"
    by (simp add: isAvailable_def connected_state)
  have quiet: "io connected = []"
    by (simp add: connected_state)
  have sends:
    "io (snd (get key tr connected)) = [GET key]"
    "io (snd (setex key seconds val tr connected)) = [SETEX key seconds val]"
    "io (snd (del key tr connected)) = [DEL key]"
    "ks \<noteq> [] \<longrightarrow> io (snd (mget ks tr connected)) = [MGET ks]"
    "kvs \<noteq> [] \<longrightarrow> io (snd (mset kvs tr connected)) = [MSET kvs]"
    "io (snd (ping tr connected)) = [PING]"
    using connected_guard quiet
    by (auto simp add: op_defs sent_def split: outcome.splits)
  from stronger not_ready quiet sends connected_guard show ?thesis
    by (simp add: connected_def)
qed

theorem isAvailable_stronger_than_guard_witness:
  "isAvailable (fst (run [InitRedis env0 None, TransportEvent ''connect'' ''connect'',
                          TransportEvent ''ready'' ''ready'']))
   \<and> redisAvailable (fst (run [InitRedis env0 None, TransportEvent ''connect'' ''connect'',
                          TransportEvent ''ready'' ''ready'']))
   \<and> redisClient (fst (run [InitRedis env0 None, TransportEvent ''connect'' ''connect'',
                          TransportEvent ''ready'' ''ready''])) \<noteq> None
   \<and> \<not> isAvailable connected
   \<and> io (snd (mget [''a''] (failing ''Stream is not writeable'') connected)) = [MGET [''a'']]
   \<and> io (snd (mset [(''a'', ''1'')] (failing ''Stream is not writeable'') connected))
       = [MSET [(''a'', ''1'')]]"
proof -
  let ?r = "fst (run [InitRedis env0 None, TransportEvent ''connect'' ''connect'',
                          TransportEvent ''ready'' ''ready''])"
  have "isAvailable ?r"
    by (simp add: isAvailable_def run_defs)
  with isAvailable_stronger_than_guard [of ?r "''k''" "failing ''Stream is not writeable''"
      0 "''v''" "[''a'']" "[(''a'', ''1'')]"]
  show ?thesis by simp
qed

end
